theory Spec2Isabelle
  imports Main "HOL-Library.Word" "HOL-Library.Signed_Division"
begin

section \<open>Common Go types\<close>

text \<open>
  Go's \<^verbatim>\<open>int\<close>, \<^verbatim>\<open>int64\<close>, \<^verbatim>\<open>uint64\<close> and \<^verbatim>\<open>time.Duration\<close> are 64-bit
  machine integers (a 64-bit platform is assumed for \<^verbatim>\<open>int\<close>); the signed ones are read
  with \<open>sint\<close>. A \<^verbatim>\<open>float64\<close> is carried as its 64-bit IEEE-754 pattern: the code only
  stores and passes such values, and the two places where it computes with them are
  parameters (the record \<open>extern\<close> below).
\<close>

type_synonym byte = "8 word"
type_synonym int64 = "64 word"
type_synonym uint64 = "64 word"
type_synonym uint32 = "32 word"
type_synonym float64 = "64 word"

text \<open>Go's \<^verbatim>\<open>error\<close> values: \<^verbatim>\<open>io.EOF\<close>, an error made by \<^verbatim>\<open>fmt.Errorf\<close>, an
  error of a collaborator (identified by its message), and the run-time panic of an integer
  division by zero.\<close>

datatype error = EOF | Errorf string | Foreign string | PanicDivideByZero

text \<open>Go's \<^verbatim>\<open>/\<close> on \<^verbatim>\<open>int64\<close>: the quotient truncated towards zero.\<close>

definition quo64 :: "int64 \<Rightarrow> int64 \<Rightarrow> int64" where
  "quo64 a b = word_of_int (sint a sdiv sint b)"

definition Second :: int64 where
  "Second = 1000000000"

section \<open>The looping video source (pkg/provider/vp8looper.go)\<close>

subsection \<open>Collaborators: the IVF reader and float64 arithmetic\<close>

text \<open>
  The IVF container parser (\<^verbatim>\<open>ivfreader\<close>) is a library outside the repository. The looper
  uses two of its operations. A reader reads from an immutable copy of the buffer, so its
  state is the sequence of results its future \<^verbatim>\<open>ParseNextFrame\<close> calls will give; once that
  sequence is used up every further call gives \<^verbatim>\<open>io.EOF\<close>. What \<^verbatim>\<open>NewWith\<close> makes of a
  given buffer is a parameter (\<open>NewWith\<close> in the record \<open>extern\<close>).
\<close>

record IVFFileHeader =
  TimebaseDenominator :: uint32
  TimebaseNumerator :: uint32

record IVFFrameHeader =
  FrameSize :: uint32
  Timestamp :: uint64

type_synonym IVFReader = "(error + byte list \<times> IVFFrameHeader) list"

definition ParseNextFrame :: "IVFReader \<Rightarrow> (error + byte list \<times> IVFFrameHeader) \<times> IVFReader" where
  "ParseNextFrame r = (case r of [] \<Rightarrow> (Inl EOF, []) | x # r' \<Rightarrow> (x, r'))"

text \<open>
  \<open>timebase_quot n d\<close> stands for \<^verbatim>\<open>float64(n) / float64(d)\<close> and \<open>timebase_duration t delta\<close>
  for \<^verbatim>\<open>time.Duration(t*float64(delta)*1000) * time.Millisecond\<close>. Floating-point
  arithmetic is not modelled: both are parameters, and every theorem holds for all of them.
\<close>

record extern =
  NewWith :: "byte list \<Rightarrow> error + IVFReader \<times> IVFFileHeader"
  timebase_quot :: "uint32 \<Rightarrow> uint32 \<Rightarrow> float64"
  timebase_duration :: "float64 \<Rightarrow> uint64 \<Rightarrow> int64"

subsection \<open>The looper\<close>

text \<open>Of \<^verbatim>\<open>videoSpec\<close> (declared elsewhere in the package) the looper reads the frame rate,
  a Go \<^verbatim>\<open>int\<close>.\<close>

record videoSpec =
  fps :: int64

record Sample =
  Data :: "byte list"
  Duration :: int64

record VPVideoLooper =
  buffer :: "byte list"
  frameDuration :: int64
  spec :: videoSpec
  reader :: "IVFReader option"
  ivfTimebase :: float64
  lastTimestamp :: uint64
  isVp9Encoding :: bool

text \<open>
  \<^verbatim>\<open>NewVPVideoLooper\<close>. The argument \<open>input\<close> is what \<^verbatim>\<open>io.Copy\<close> gets out of the
  \<^verbatim>\<open>io.Reader\<close>: an error or all its bytes. The struct literal is evaluated first, and its
  division panics when the frame rate is zero.
\<close>

definition NewVPVideoLooper :: "error + byte list \<Rightarrow> videoSpec \<Rightarrow> bool \<Rightarrow> error + VPVideoLooper" where
  "NewVPVideoLooper input spc isVp9 =
    (if fps spc = 0 then Inl PanicDivideByZero
     else
       let l = \<lparr>buffer = [], frameDuration = quo64 Second (fps spc), spec = spc, reader = None,
                ivfTimebase = 0, lastTimestamp = 0, isVp9Encoding = isVp9\<rparr>
       in case input of
            Inl err \<Rightarrow> Inl err
          | Inr bytes \<Rightarrow> Inr (l\<lparr>buffer := bytes\<rparr>))"

text \<open>Lines 84 to 93 of \<^verbatim>\<open>nextSample\<close>: open a reader on the buffer when there is none.
  The result is the reader to parse from and the looper holding it.\<close>

definition openReader :: "extern \<Rightarrow> VPVideoLooper \<Rightarrow> error + IVFReader \<times> VPVideoLooper" where
  "openReader x l =
    (case reader l of
       Some r \<Rightarrow> Inr (r, l)
     | None \<Rightarrow>
         (case NewWith x (buffer l) of
            Inl err \<Rightarrow> Inl err
          | Inr (r, ivfheader) \<Rightarrow>
              Inr (r, l\<lparr>reader := Some r,
                        ivfTimebase := timebase_quot x (TimebaseNumerator ivfheader)
                                         (TimebaseDenominator ivfheader)\<rparr>)))"

text \<open>
  \<^verbatim>\<open>nextSample\<close> returns the pair (sample, error) of the Go function, \<open>None\<close> for a
  \<^verbatim>\<open>nil\<close> error, and the looper as the call leaves it.
\<close>

function nextSample :: "extern \<Rightarrow> bool \<Rightarrow> VPVideoLooper \<Rightarrow> (Sample \<times> error option) \<times> VPVideoLooper" where
  "nextSample x rewindEOF l =
    (let sample = \<lparr>Data = [], Duration = 0\<rparr> in
     case openReader x l of
       Inl err \<Rightarrow> ((sample, Some err), l)
     | Inr (r, l1) \<Rightarrow>
         (case ParseNextFrame r of
            (res, r') \<Rightarrow>
              let l2 = l1\<lparr>reader := Some r'\<rparr> in
              (case res of
                 Inl err \<Rightarrow>
                   if err = EOF \<and> rewindEOF then nextSample x False (l2\<lparr>reader := None\<rparr>)
                   else ((sample, Some err), l2)
               | Inr (frame, header) \<Rightarrow>
                   let delta = Timestamp header - lastTimestamp l2;
                       sample = sample\<lparr>Data := frame\<rparr>;
                       sample = sample\<lparr>Duration := timebase_duration x (ivfTimebase l2) delta\<rparr>;
                       l3 = l2\<lparr>lastTimestamp := Timestamp header\<rparr>;
                       sample = sample\<lparr>Duration := frameDuration l3\<rparr>
                   in ((sample, None), l3))))"
  by pat_completeness auto
termination
  by (relation "measure (\<lambda>(x, rewindEOF, l). if rewindEOF then 1 else 0)") auto

declare nextSample.simps [simp del]

definition NextSample :: "extern \<Rightarrow> VPVideoLooper \<Rightarrow> (Sample \<times> error option) \<times> VPVideoLooper" where
  "NextSample x l = nextSample x True l"

text \<open>The looper after \<open>n\<close> consecutive calls of \<^verbatim>\<open>NextSample\<close>, whatever they returned:
  the publish loop pulls from one looper over and over.\<close>

fun pulls :: "extern \<Rightarrow> nat \<Rightarrow> VPVideoLooper \<Rightarrow> VPVideoLooper" where
  "pulls x 0 l = l"
| "pulls x (Suc n) l = snd (NextSample x (pulls x n l))"

text \<open>
  The number of nested activations of \<^verbatim>\<open>nextSample\<close> in one call: the control flow of
  \<open>nextSample\<close> above, counting one for each activation.
\<close>

function nextSample_depth :: "extern \<Rightarrow> bool \<Rightarrow> VPVideoLooper \<Rightarrow> nat" where
  "nextSample_depth x rewindEOF l =
    (case openReader x l of
       Inl err \<Rightarrow> 1
     | Inr (r, l1) \<Rightarrow>
         (case ParseNextFrame r of
            (res, r') \<Rightarrow>
              let l2 = l1\<lparr>reader := Some r'\<rparr> in
              (case res of
                 Inl err \<Rightarrow>
                   if err = EOF \<and> rewindEOF then 1 + nextSample_depth x False (l2\<lparr>reader := None\<rparr>)
                   else 1
               | Inr (frame, header) \<Rightarrow> 1)))"
  by pat_completeness auto
termination
  by (relation "measure (\<lambda>(x, rewindEOF, l). if rewindEOF then 1 else 0)") auto

declare nextSample_depth.simps [simp del]

section \<open>The load-test command (cmd/lk/loadtest.go)\<close>

subsection \<open>Flags\<close>

text \<open>
  A \<^verbatim>\<open>cli.Command\<close> is read through its typed lookups \<^verbatim>\<open>cmd.Bool\<close>, \<^verbatim>\<open>cmd.Int\<close>,
  \<^verbatim>\<open>cmd.String\<close>, \<^verbatim>\<open>cmd.Duration\<close> and \<^verbatim>\<open>cmd.Float\<close>, each from a flag name to the
  flag's value.
\<close>

record Command =
  cmd_Bool :: "string \<Rightarrow> bool"
  cmd_Int :: "string \<Rightarrow> int64"
  cmd_String :: "string \<Rightarrow> string"
  cmd_Duration :: "string \<Rightarrow> int64"
  cmd_Float :: "string \<Rightarrow> float64"

text \<open>
  The values of the flags of \<^verbatim>\<open>LoadTestCommands\<close> when the command line sets none of them:
  the \<^verbatim>\<open>Value\<close> of each flag, or the zero value of its type. The float 5 of
  \<^verbatim>\<open>num-per-second\<close> is the pattern \<open>0x4014000000000000\<close>.
\<close>

definition LoadTestCommands :: Command where
  "LoadTestCommands =
    \<lparr>cmd_Bool = (\<lambda>name. False),
     cmd_Int = (\<lambda>name.
        if name = ''room-count'' then 1
        else if name = ''fairproc-config-web-width'' then - 1
        else if name = ''fairproc-config-web-height'' then - 1
        else if name = ''fairproc-config-web-bitrate'' then - 1
        else if name = ''fairproc-config-screen-width'' then - 1
        else if name = ''fairproc-config-screen-height'' then - 1
        else if name = ''fairproc-config-screen-bitrate'' then - 1
        else if name = ''fairproc-config-audio-bitrate'' then 16
        else 0),
     cmd_String = (\<lambda>name.
        if name = ''room'' then ''load-test''
        else if name = ''video-resolution'' then ''high''
        else if name = ''layout'' then ''speaker''
        else []),
     cmd_Duration = (\<lambda>name. 0),
     cmd_Float = (\<lambda>name. if name = ''num-per-second'' then 0x4014000000000000 else 0)\<rparr>"

text \<open>The command line that sets one more flag, and the one that sets the three counts of
  publishers and subscribers.\<close>

definition with_Bool :: "string \<Rightarrow> bool \<Rightarrow> Command \<Rightarrow> Command" where
  "with_Bool name v cmd = cmd\<lparr>cmd_Bool := (cmd_Bool cmd)(name := v)\<rparr>"

definition with_Int :: "string \<Rightarrow> int64 \<Rightarrow> Command \<Rightarrow> Command" where
  "with_Int name v cmd = cmd\<lparr>cmd_Int := (cmd_Int cmd)(name := v)\<rparr>"

definition with_counts :: "int64 \<Rightarrow> int64 \<Rightarrow> int64 \<Rightarrow> Command \<Rightarrow> Command" where
  "with_counts v a s cmd =
    with_Int ''video-publishers'' v (with_Int ''audio-publishers'' a (with_Int ''subscribers'' s cmd))"

subsection \<open>Parameters of a load test\<close>

record TesterParams =
  URL :: string
  APIKey :: string
  APISecret :: string
  Room :: string
  IdentityPrefix :: string
  Layout :: string

record Params =
  VideoPublishers :: int64
  AudioPublishers :: int64
  Subscribers :: int64
  VideoResolution :: string
  VideoCodec :: string
  RunDuration :: int64
  NumPerSecond :: float64
  Simulcast :: bool
  SimulateSpeakers :: bool
  FairprocConfigWebWidth :: int64
  FairprocConfigWebHieght :: int64
  FairprocConfigWebBitrate :: int64
  FairprocConfigScreenWidth :: int64
  FairprocConfigScreenHeight :: int64
  FairprocConfigScreenBitrate :: int64
  FairprocAudioBitrate :: int64
  IsFairproc :: bool
  TesterParams :: TesterParams

record ProjectConfig =
  pc_URL :: string
  pc_APIKey :: string
  pc_APISecret :: string

subsection \<open>Collaborators and effects\<close>

text \<open>
  What \<^verbatim>\<open>loadTest\<close> calls and does not define: \<^verbatim>\<open>loadProjectDetails\<close>,
  \<^verbatim>\<open>loadtester.LayoutFromString\<close>, and the methods \<^verbatim>\<open>Run\<close> and \<^verbatim>\<open>RunSuite\<close> of the
  load test made from given parameters (\<open>None\<close> is a \<^verbatim>\<open>nil\<close> error). They are parameters.
\<close>

record Env =
  loadProjectDetails :: "Command \<Rightarrow> error + ProjectConfig"
  LayoutFromString :: "string \<Rightarrow> string"
  Run :: "Params \<Rightarrow> error option"
  RunSuite :: "Params \<Rightarrow> error option"

text \<open>The calls with an effect outside the function, in the order \<^verbatim>\<open>loadTest\<close> makes them.\<close>

datatype call =
    SetLogger_Discard
  | RaiseULimit
  | NewLoadTest Params
  | Call_Run
  | Call_RunSuite

subsection \<open>loadTest\<close>

text \<open>Lines 150 to 153: the calls made before the parameters are built.\<close>

definition preamble :: "Command \<Rightarrow> call list" where
  "preamble cmd = (if \<not> cmd_Bool cmd ''verbose'' then [SetLogger_Discard] else []) @ [RaiseULimit]"

text \<open>Lines 155 to 178. The publisher and subscriber counts are not in the literal, so they
  are zero.\<close>

definition flagParams :: "Env \<Rightarrow> Command \<Rightarrow> ProjectConfig \<Rightarrow> Params" where
  "flagParams env cmd pc =
    \<lparr>VideoPublishers = 0,
     AudioPublishers = 0,
     Subscribers = 0,
     VideoResolution = cmd_String cmd ''video-resolution'',
     VideoCodec = cmd_String cmd ''video-codec'',
     RunDuration = cmd_Duration cmd ''duration'',
     NumPerSecond = cmd_Float cmd ''num-per-second'',
     Simulcast = (\<not> cmd_Bool cmd ''no-simulcast''),
     SimulateSpeakers = cmd_Bool cmd ''simulate-speakers'',
     FairprocConfigWebWidth = cmd_Int cmd ''fairproc-config-web-width'',
     FairprocConfigWebHieght = cmd_Int cmd ''fairproc-config-web-height'',
     FairprocConfigWebBitrate = cmd_Int cmd ''fairproc-config-web-bitrate'',
     FairprocConfigScreenWidth = cmd_Int cmd ''fairproc-config-screen-width'',
     FairprocConfigScreenHeight = cmd_Int cmd ''fairproc-config-screen-height'',
     FairprocConfigScreenBitrate = cmd_Int cmd ''fairproc-config-screen-bitrate'',
     FairprocAudioBitrate = cmd_Int cmd ''fairproc-config-audio-bitrate'',
     IsFairproc = cmd_Bool cmd ''fairproc-rooms'',
     TesterParams =
       \<lparr>URL = pc_URL pc,
        APIKey = pc_APIKey pc,
        APISecret = pc_APISecret pc,
        Room = cmd_String cmd ''room'',
        IdentityPrefix = cmd_String cmd ''identity-prefix'',
        Layout = LayoutFromString env (cmd_String cmd ''layout'')\<rparr>\<rparr>"

text \<open>Lines 193 to 201: the check of the fairproc parameters, and the publisher counts it
  sets when it passes.\<close>

definition fairprocCheck :: "Params \<Rightarrow> error + Params" where
  "fairprocCheck params =
    (if IsFairproc params then
       if FairprocAudioBitrate params = - 1 \<or> FairprocConfigScreenHeight params = - 1
          \<or> FairprocConfigScreenWidth params = - 1 \<or> FairprocConfigWebBitrate params = - 1
          \<or> FairprocConfigWebHieght params = - 1 \<or> FairprocConfigWebWidth params = - 1
       then Inl (Errorf ''fairproc missing required files'')
       else Inr (params\<lparr>AudioPublishers := 2, VideoPublishers := 3\<rparr>)
     else Inr params)"

text \<open>\<^verbatim>\<open>loadTest\<close> returns the calls it made and the error it returns (\<open>None\<close> for
  \<^verbatim>\<open>nil\<close>).\<close>

definition loadTest :: "Env \<Rightarrow> Command \<Rightarrow> call list \<times> error option" where
  "loadTest env cmd =
    (case loadProjectDetails env cmd of
       Inl err \<Rightarrow> ([], Some err)
     | Inr pc \<Rightarrow>
         let calls = preamble cmd;
             params = flagParams env cmd pc
         in (if cmd_Bool cmd ''run-all'' then
               let params = (if RunDuration params = 0 then params\<lparr>RunDuration := Second * 15\<rparr>
                             else params)
               in (calls @ [NewLoadTest params, Call_RunSuite], RunSuite env params)
             else
               let params = params\<lparr>VideoPublishers := cmd_Int cmd ''video-publishers''\<rparr>;
                   params = params\<lparr>AudioPublishers := cmd_Int cmd ''audio-publishers''\<rparr>;
                   params = params\<lparr>Subscribers := cmd_Int cmd ''subscribers''\<rparr>
               in (case fairprocCheck params of
                     Inl err \<Rightarrow> (calls, Some err)
                   | Inr params \<Rightarrow> (calls @ [NewLoadTest params, Call_Run], Run env params))))"

text \<open>The error of line 196, and the condition of lines 194 and 195 on the flags that the six
  compared parameters are read from.\<close>

definition configError :: error where
  "configError = Errorf ''fairproc missing required files''"

definition checkedUnset :: "Command \<Rightarrow> bool" where
  "checkedUnset cmd \<longleftrightarrow>
     cmd_Int cmd ''fairproc-config-audio-bitrate'' = - 1
     \<or> cmd_Int cmd ''fairproc-config-screen-height'' = - 1
     \<or> cmd_Int cmd ''fairproc-config-screen-width'' = - 1
     \<or> cmd_Int cmd ''fairproc-config-web-bitrate'' = - 1
     \<or> cmd_Int cmd ''fairproc-config-web-height'' = - 1
     \<or> cmd_Int cmd ''fairproc-config-web-width'' = - 1"

section \<open>Example inputs\<close>

text \<open>A clip of two frames behind a header with timebase 1/30, collaborators that read it
  from any buffer (the duration computed from the timebase is taken to be 1 nanosecond), and a
  looper at 30 frames per second as \<^verbatim>\<open>NewVPVideoLooper\<close> makes it.\<close>


definition example_header :: IVFFileHeader where
  "example_header = \<lparr>TimebaseDenominator = 30, TimebaseNumerator = 1\<rparr>"

definition example_clip :: "(byte list \<times> IVFFrameHeader) list" where
  "example_clip = [([1, 2], \<lparr>FrameSize = 2, Timestamp = 0\<rparr>), ([3], \<lparr>FrameSize = 1, Timestamp = 1\<rparr>)]"

definition example_extern :: "(byte list \<times> IVFFrameHeader) list \<Rightarrow> extern" where
  "example_extern fs =
    \<lparr>NewWith = (\<lambda>buf. Inr (map Inr fs, example_header)),
     timebase_quot = (\<lambda>n d. 0),
     timebase_duration = (\<lambda>t delta. 1)\<rparr>"

definition example_looper :: VPVideoLooper where
  "example_looper =
    \<lparr>buffer = [], frameDuration = 33333333, spec = \<lparr>fps = 30\<rparr>, reader = None,
     ivfTimebase = 0, lastTimestamp = 0, isVp9Encoding = False\<rparr>"


text \<open>
  A project and collaborators whose runs succeed, and three command lines in fairproc mode
  that ask for 7 video publishers, 5 audio publishers and 4 subscribers: one that sets the
  web width, height and bitrate and the screen bitrate, one that sets the screen width and
  height as well, and one that sets none of them.
\<close>

definition example_project :: ProjectConfig where
  "example_project = \<lparr>pc_URL = ''ws://localhost:7880'', pc_APIKey = ''devkey'', pc_APISecret = ''secret''\<rparr>"

definition example_env :: Env where
  "example_env =
    \<lparr>loadProjectDetails = (\<lambda>cmd. Inr example_project),
     LayoutFromString = (\<lambda>s. s),
     Run = (\<lambda>params. None),
     RunSuite = (\<lambda>params. None)\<rparr>"

definition fairproc_four :: Command where
  "fairproc_four =
    with_Int ''fairproc-config-web-width'' 300
     (with_Int ''fairproc-config-web-height'' 200
       (with_Int ''fairproc-config-web-bitrate'' 29
         (with_Int ''fairproc-config-screen-bitrate'' 50
           (with_counts 7 5 4 (with_Bool ''fairproc-rooms'' True LoadTestCommands)))))"

definition fairproc_all :: Command where
  "fairproc_all =
    with_Int ''fairproc-config-screen-width'' 1280
     (with_Int ''fairproc-config-screen-height'' 720 fairproc_four)"

definition fairproc_unset :: Command where
  "fairproc_unset = with_counts 7 5 4 (with_Bool ''fairproc-rooms'' True LoadTestCommands)"

section \<open>Properties of the looping video source\<close>


lemma openReader_keeps:
  assumes "openReader x l = Inr (r, l1)"
  shows "buffer l1 = buffer l" "frameDuration l1 = frameDuration l" "spec l1 = spec l"
    "isVp9Encoding l1 = isVp9Encoding l" "lastTimestamp l1 = lastTimestamp l" "reader l1 = Some r"
  using assms by (auto simp: openReader_def split: option.splits sum.splits)

lemma nextSample_False:
  "nextSample x False l =
    (case openReader x l of
       Inl err \<Rightarrow> ((\<lparr>Data = [], Duration = 0\<rparr>, Some err), l)
     | Inr (r, l1) \<Rightarrow>
         (case fst (ParseNextFrame r) of
            Inl err \<Rightarrow> ((\<lparr>Data = [], Duration = 0\<rparr>, Some err), l1\<lparr>reader := Some (snd (ParseNextFrame r))\<rparr>)
          | Inr (frame, header) \<Rightarrow>
              ((\<lparr>Data = frame, Duration = frameDuration l1\<rparr>, None),
               l1\<lparr>reader := Some (snd (ParseNextFrame r)), lastTimestamp := Timestamp header\<rparr>)))"
  by (subst nextSample.simps) (simp add: Let_def split: sum.splits prod.splits)

lemma nextSample_True:
  "nextSample x True l =
    (case openReader x l of
       Inl err \<Rightarrow> ((\<lparr>Data = [], Duration = 0\<rparr>, Some err), l)
     | Inr (r, l1) \<Rightarrow>
         (case fst (ParseNextFrame r) of
            Inl err \<Rightarrow>
              if err = EOF then nextSample x False (l1\<lparr>reader := None\<rparr>)
              else ((\<lparr>Data = [], Duration = 0\<rparr>, Some err), l1\<lparr>reader := Some (snd (ParseNextFrame r))\<rparr>)
          | Inr (frame, header) \<Rightarrow>
              ((\<lparr>Data = frame, Duration = frameDuration l1\<rparr>, None),
               l1\<lparr>reader := Some (snd (ParseNextFrame r)), lastTimestamp := Timestamp header\<rparr>)))"
  by (subst nextSample.simps) (simp add: Let_def split: sum.splits prod.splits)

lemma nextSample_keeps:
  "buffer (snd (nextSample x b l)) = buffer l \<and> frameDuration (snd (nextSample x b l)) = frameDuration l
   \<and> spec (snd (nextSample x b l)) = spec l \<and> isVp9Encoding (snd (nextSample x b l)) = isVp9Encoding l"
proof -
  have F: "\<And>l. buffer (snd (nextSample x False l)) = buffer l \<and> frameDuration (snd (nextSample x False l)) = frameDuration l
   \<and> spec (snd (nextSample x False l)) = spec l \<and> isVp9Encoding (snd (nextSample x False l)) = isVp9Encoding l"
    by (auto simp: nextSample_False split: sum.splits prod.splits dest: openReader_keeps)
  show ?thesis
  proof (cases b)
    case False then show ?thesis using F by simp
  next
    case True
    then show ?thesis
      by (auto simp: nextSample_True F split: sum.splits prod.splits dest: openReader_keeps)
  qed
qed

lemma nextSample_Duration:
  "nextSample x b l = ((s, None), l') \<Longrightarrow> Duration s = frameDuration l"
proof -
  have F: "\<And>l s l'. nextSample x False l = ((s, None), l') \<Longrightarrow> Duration s = frameDuration l"
    by (auto simp: nextSample_False split: sum.splits prod.splits dest: openReader_keeps)
  assume a: "nextSample x b l = ((s, None), l')"
  show ?thesis
  proof (cases b)
    case False then show ?thesis using F a by simp
  next
    case True
    then show ?thesis using a
      by (auto simp: nextSample_True split: sum.splits prod.splits if_splits
            dest!: F dest: openReader_keeps)
  qed
qed


lemma ParseNextFrame_Nil: "ParseNextFrame [] = (Inl EOF, [])"
  by (simp add: ParseNextFrame_def)

lemma ParseNextFrame_Cons: "ParseNextFrame (e # r) = (e, r)"
  by (simp add: ParseNextFrame_def)

lemma nextSample_frame:
  assumes "reader l = Some (Inr (f, h) # r)"
  shows "nextSample x b l =
    ((\<lparr>Data = f, Duration = frameDuration l\<rparr>, None), l\<lparr>reader := Some r, lastTimestamp := Timestamp h\<rparr>)"
  using assms by (cases b) (simp_all add: nextSample_True nextSample_False openReader_def ParseNextFrame_Cons)

lemma nextSample_open_frame:
  assumes "reader l = None" "NewWith x (buffer l) = Inr (Inr (f, h) # r, hdr)"
  shows "nextSample x b l =
    ((\<lparr>Data = f, Duration = frameDuration l\<rparr>, None),
     l\<lparr>reader := Some r,
       ivfTimebase := timebase_quot x (TimebaseNumerator hdr) (TimebaseDenominator hdr),
       lastTimestamp := Timestamp h\<rparr>)"
  using assms by (cases b) (simp_all add: nextSample_True nextSample_False openReader_def ParseNextFrame_Cons)

lemma nextSample_rewind_frame:
  assumes "reader l = Some []" "NewWith x (buffer l) = Inr (Inr (f, h) # r, hdr)"
  shows "nextSample x True l =
    ((\<lparr>Data = f, Duration = frameDuration l\<rparr>, None),
     l\<lparr>reader := Some r,
       ivfTimebase := timebase_quot x (TimebaseNumerator hdr) (TimebaseDenominator hdr),
       lastTimestamp := Timestamp h\<rparr>)"
proof -
  have "nextSample x True l = nextSample x False (l\<lparr>reader := None\<rparr>)"
    using assms(1) by (simp add: nextSample_True openReader_def ParseNextFrame_Nil)
  also have "\<dots> = ((\<lparr>Data = f, Duration = frameDuration l\<rparr>, None),
     l\<lparr>reader := Some r,
       ivfTimebase := timebase_quot x (TimebaseNumerator hdr) (TimebaseDenominator hdr),
       lastTimestamp := Timestamp h\<rparr>)"
    using nextSample_open_frame [of "l\<lparr>reader := None\<rparr>" x f h r hdr False] assms(2) by simp
  finally show ?thesis .
qed

text \<open>One pull on a clip of frames \<open>fs\<close>, with the reader not yet opened (\<open>j = 0\<close>) or \<open>j\<close>
  frames into the clip.\<close>

lemma NextSample_at:
  assumes nw: "NewWith x (buffer l) = Inr (map Inr fs, hdr)" and ne: "fs \<noteq> []"
    and pos: "reader l = None \<and> j = 0 \<or> reader l = Some (drop j (map Inr fs)) \<and> j \<le> length fs"
  shows "fst (NextSample x l) = (\<lparr>Data = fst (fs ! (j mod length fs)), Duration = frameDuration l\<rparr>, None)
    \<and> reader (snd (NextSample x l)) = Some (drop (Suc (j mod length fs)) (map Inr fs))
    \<and> lastTimestamp (snd (NextSample x l)) = Timestamp (snd (fs ! (j mod length fs)))"
proof -
  obtain f h fs' where fs: "fs = (f, h) # fs'"
    using ne by (cases fs) auto
  have nw': "NewWith x (buffer l) = Inr (Inr (f, h) # map Inr fs', hdr)"
    using nw fs by simp
  consider (fresh) "reader l = None" "j = 0"
    | (inside) "reader l = Some (drop j (map Inr fs))" "j < length fs"
    | (atend) "reader l = Some (drop j (map Inr fs))" "j = length fs"
    using pos by fastforce
  then show ?thesis
  proof cases
    case fresh
    then show ?thesis
      using nextSample_open_frame [OF fresh(1) nw', of True] fs
      by (simp add: NextSample_def)
  next
    case inside
    obtain g k where g: "fs ! j = (g, k)" by (cases "fs ! j")
    have "drop j (map Inr fs) = Inr (g, k) # drop (Suc j) (map Inr fs)"
      using inside(2) g by (simp add: Cons_nth_drop_Suc [symmetric])
    then have "reader l = Some (Inr (g, k) # drop (Suc j) (map Inr fs))"
      using inside(1) by simp
    from nextSample_frame [OF this, of x True] show ?thesis
      using inside(2) g by (simp add: NextSample_def)
  next
    case atend
    then have "reader l = Some []" by simp
    from nextSample_rewind_frame [OF this nw'] show ?thesis
      using atend(2) fs by (simp add: NextSample_def)
  qed
qed

lemma pulls_keeps:
  "buffer (pulls x n l) = buffer l \<and> frameDuration (pulls x n l) = frameDuration l
   \<and> spec (pulls x n l) = spec l \<and> isVp9Encoding (pulls x n l) = isVp9Encoding l"
  by (induction n) (simp_all add: NextSample_def nextSample_keeps)

lemma pulls_clip:
  assumes fresh: "reader l0 = None" and nw: "NewWith x (buffer l0) = Inr (map Inr fs, hdr)"
    and ne: "fs \<noteq> []"
  shows "fst (NextSample x (pulls x i l0))
      = (\<lparr>Data = fst (fs ! (i mod length fs)), Duration = frameDuration l0\<rparr>, None)
    \<and> reader (pulls x (Suc i) l0) = Some (drop (Suc (i mod length fs)) (map Inr fs))
    \<and> lastTimestamp (pulls x (Suc i) l0) = Timestamp (snd (fs ! (i mod length fs)))"
proof (induction i)
  case 0
  show ?case
    using NextSample_at [of x l0 fs hdr 0] fresh nw ne by simp
next
  case (Suc i)
  let ?l = "pulls x (Suc i) l0"
  let ?j = "Suc (i mod length fs)"
  have len: "0 < length fs" using ne by simp
  have nw': "NewWith x (buffer ?l) = Inr (map Inr fs, hdr)"
    using nw pulls_keeps [of x "Suc i" l0] by simp
  have le: "?j \<le> length fs"
    using len by (simp add: Suc_le_eq)
  have pos: "reader ?l = None \<and> ?j = 0 \<or> reader ?l = Some (drop ?j (map Inr fs)) \<and> ?j \<le> length fs"
    using Suc.IH le by simp
  have m: "?j mod length fs = Suc i mod length fs"
    by (simp add: mod_Suc)
  have fd: "frameDuration ?l = frameDuration l0"
    using pulls_keeps [of x "Suc i" l0] by simp
  from NextSample_at [OF nw' ne pos] show ?case
    unfolding m fd by simp
qed

lemma quo64_30: "quo64 Second 30 = 33333333"
  by (simp add: quo64_def Second_def signed_divide_int_def)

lemma ex_new: "NewVPVideoLooper (Inr []) \<lparr>fps = 30\<rparr> False = Inr example_looper"
  by (simp add: NewVPVideoLooper_def example_looper_def quo64_30)


lemma sdiv_int_bound: "\<bar>(a::int) sdiv b\<bar> \<le> \<bar>a\<bar>"
proof -
  have nn: "0 \<le> \<bar>a\<bar> div \<bar>b\<bar>"
    by (simp add: div_int_pos_iff)
  have "\<bar>a sdiv b\<bar> = \<bar>sgn a\<bar> * \<bar>sgn b\<bar> * (\<bar>a\<bar> div \<bar>b\<bar>)"
    using nn by (simp add: signed_divide_int_def abs_mult)
  also have "\<dots> \<le> \<bar>a\<bar> div \<bar>b\<bar>"
    by (cases "a = 0"; cases "b = 0") (simp_all add: abs_sgn_eq)
  also have "\<dots> \<le> \<bar>a\<bar>"
    by (cases "a = 0") (simp_all add: int_div_le_self)
  finally show ?thesis .
qed

lemma sint_quo64_Second: "sint (quo64 Second b) = 1000000000 sdiv sint b"
proof -
  have s: "sint Second = 1000000000"
    by (simp add: Second_def)
  have "\<bar>(1000000000::int) sdiv sint b\<bar> \<le> 1000000000"
    using sdiv_int_bound [of 1000000000 "sint b"] by simp
  then have "- (2 ^ 63) \<le> (1000000000::int) sdiv sint b" "(1000000000::int) sdiv sint b < 2 ^ 63"
    by simp_all
  then have "signed_take_bit 63 ((1000000000::int) sdiv sint b) = 1000000000 sdiv sint b"
    by (simp add: signed_take_bit_int_eq_self)
  then show ?thesis
    by (simp add: quo64_def s sint_sbintrunc')
qed

lemma New_fields:
  assumes "NewVPVideoLooper input spc vp9 = Inr l0"
  shows "reader l0 = None" "frameDuration l0 = quo64 Second (fps spc)" "spec l0 = spc"
    "isVp9Encoding l0 = vp9" "lastTimestamp l0 = 0" "fps spc \<noteq> 0" "input = Inr (buffer l0)"
  using assms by (auto simp: NewVPVideoLooper_def Let_def split: if_splits sum.splits)

text \<open>
  C1. On a clip that parses into \<open>k \<ge> 1\<close> frames \<open>fs\<close> followed by the end of the stream,
  every pull on a newly constructed looper succeeds: pull number \<open>i\<close> (from 0) returns no
  error and the payload of frame \<open>i mod k\<close>, so the end of the stream is never returned and
  the clip starts again at its first frame after its last one.
\<close>

theorem looping_returns_frame_i_mod_k:
  assumes "NewVPVideoLooper input spc vp9 = Inr l0"
    and "NewWith x (buffer l0) = Inr (map Inr fs, hdr)"
    and "fs \<noteq> []"
  shows "fst (NextSample x (pulls x i l0))
    = (\<lparr>Data = fst (fs ! (i mod length fs)), Duration = frameDuration l0\<rparr>, None)"
  using pulls_clip [OF New_fields(1) [OF assms(1)] assms(2,3)] by simp

theorem looping_returns_frame_i_mod_k_witness:
  "fst (NextSample (example_extern example_clip) (pulls (example_extern example_clip) 2 example_looper))
    = (\<lparr>Data = [1, 2], Duration = 33333333\<rparr>, None)"
proof -
  have nw: "NewWith (example_extern example_clip) (buffer example_looper)
      = Inr (map Inr example_clip, example_header)"
    by (simp add: example_extern_def)
  have ne: "example_clip \<noteq> []"
    by (simp add: example_clip_def)
  have fr: "fst (example_clip ! (2 mod length example_clip)) = [1, 2]"
    by (simp add: example_clip_def numeral_2_eq_2)
  have fd: "frameDuration example_looper = 33333333"
    by (simp add: example_looper_def)
  from looping_returns_frame_i_mod_k [OF ex_new nw ne, of 2] show ?thesis
    by (simp only: fr fd)
qed

text \<open>
  C2. Whatever the clip and however many pulls came before, a successful \<^verbatim>\<open>NextSample\<close> on
  a looper constructed with frame rate \<open>fps\<close> returns a sample whose duration is one second
  divided by \<open>fps\<close> (Go's truncating division); this holds for every function computing a
  duration from the clip's timebase and timestamp delta, so that value is never the one
  returned.
\<close>

theorem sample_duration_is_fixed:
  assumes "NewVPVideoLooper input spc vp9 = Inr l0"
    and "fst (NextSample x (pulls x n l0)) = (s, None)"
  shows "Duration s = quo64 Second (fps spc) \<and> sint (Duration s) = 1000000000 sdiv sint (fps spc)"
proof -
  obtain l' where "nextSample x True (pulls x n l0) = ((s, None), l')"
    using assms(2) by (cases "NextSample x (pulls x n l0)") (simp add: NextSample_def)
  then have "Duration s = frameDuration (pulls x n l0)"
    by (rule nextSample_Duration)
  also have "\<dots> = frameDuration l0"
    using pulls_keeps [of x n l0] by simp
  also have "\<dots> = quo64 Second (fps spc)"
    using New_fields(2) [OF assms(1)] .
  finally show ?thesis
    by (simp add: sint_quo64_Second)
qed

lemma pulls_1: "pulls x 1 l = snd (NextSample x l)"
  by simp

theorem sample_duration_is_fixed_witness:
  "Duration (fst (fst (NextSample (example_extern example_clip)
      (pulls (example_extern example_clip) 1 example_looper)))) = 33333333
   \<and> timebase_duration (example_extern example_clip) 0 1 = 1"
proof -
  have r: "fst (NextSample (example_extern example_clip) (pulls (example_extern example_clip) 1 example_looper))
    = (\<lparr>Data = [3], Duration = 33333333\<rparr>, None)"
    by (simp add: pulls_1 NextSample_def nextSample_open_frame nextSample_frame example_extern_def
        example_clip_def example_looper_def)
  from sample_duration_is_fixed [OF ex_new r]
  have "Duration \<lparr>Data = [3], Duration = 33333333\<rparr> = quo64 Second (fps \<lparr>fps = 30\<rparr>)"
    by (rule conjunct1)
  moreover have "timebase_duration (example_extern example_clip) 0 1 = 1"
    by (simp add: example_extern_def)
  ultimately show ?thesis
    using r by (simp add: quo64_30)
qed

lemma nextSample_depth_False: "nextSample_depth x False l = 1"
  by (subst nextSample_depth.simps) (simp add: Let_def split: sum.splits prod.splits)

lemma nextSample_depth_le: "nextSample_depth x rewindEOF l \<le> 2"
  by (subst nextSample_depth.simps)
     (simp add: Let_def nextSample_depth_False split: sum.splits prod.splits)

text \<open>
  C7. A call of \<^verbatim>\<open>nextSample\<close> is at most two activations deep, and one when it is called
  with rewinding disabled. When the parse gives the end of the stream, the call with
  rewinding enabled is the call with rewinding disabled on the looper whose reader was reset,
  and the call with rewinding disabled returns the error \<^verbatim>\<open>io.EOF\<close> with the empty sample.
  (That every call terminates is the termination proof of \<open>nextSample\<close>.)
\<close>

theorem nextSample_retries_at_most_once:
  "nextSample_depth x rewindEOF l \<le> 2
   \<and> nextSample_depth x False l = 1
   \<and> (openReader x l = Inr (r, l1) \<and> fst (ParseNextFrame r) = Inl EOF \<longrightarrow>
        nextSample x True l = nextSample x False (l1\<lparr>reader := None\<rparr>)
        \<and> nextSample x False l
            = ((\<lparr>Data = [], Duration = 0\<rparr>, Some EOF), l1\<lparr>reader := Some (snd (ParseNextFrame r))\<rparr>))"
  by (simp add: nextSample_depth_le nextSample_depth_False nextSample_True nextSample_False)

lemma nextSample_empty:
  assumes "reader l = None \<or> reader l = Some []" and "NewWith x (buffer l) = Inr ([], hdr)"
  shows "nextSample x True l =
    ((\<lparr>Data = [], Duration = 0\<rparr>, Some EOF),
     l\<lparr>reader := Some [],
       ivfTimebase := timebase_quot x (TimebaseNumerator hdr) (TimebaseDenominator hdr)\<rparr>)"
    and "nextSample_depth x True l = 2"
  using assms
  by (auto simp: nextSample_True nextSample_False openReader_def ParseNextFrame_Nil
      nextSample_depth.simps [of x True] nextSample_depth_False)

lemma pulls_empty:
  assumes "reader l = None" and "NewWith x (buffer l) = Inr ([], hdr)"
  shows "(reader (pulls x n l) = None \<or> reader (pulls x n l) = Some [])"
proof (induction n)
  case 0
  then show ?case using assms by simp
next
  case (Suc n)
  have "NewWith x (buffer (pulls x n l)) = Inr ([], hdr)"
    using assms(2) pulls_keeps [of x n l] by simp
  from nextSample_empty(1) [OF Suc.IH this] show ?case
    by (simp add: NextSample_def)
qed

text \<open>
  C5, as the code has it. On a clip with a well-formed header and no frame, opening the
  reader succeeds; every pull returns the empty sample together with \<^verbatim>\<open>io.EOF\<close>, after one
  reopening (two activations of \<^verbatim>\<open>nextSample\<close>), so no pull runs forever and none returns a
  sample without an error.
\<close>

theorem zero_frame_clip_gives_EOF:
  assumes "NewVPVideoLooper input spc vp9 = Inr l0"
    and "NewWith x (buffer l0) = Inr ([], hdr)"
  shows "openReader x l0
      = Inr ([], l0\<lparr>reader := Some [],
                    ivfTimebase := timebase_quot x (TimebaseNumerator hdr) (TimebaseDenominator hdr)\<rparr>)
    \<and> fst (NextSample x (pulls x n l0)) = (\<lparr>Data = [], Duration = 0\<rparr>, Some EOF)
    \<and> nextSample_depth x True (pulls x n l0) = 2"
proof -
  have fresh: "reader l0 = None"
    using New_fields(1) [OF assms(1)] .
  have nw: "NewWith x (buffer (pulls x n l0)) = Inr ([], hdr)"
    using assms(2) pulls_keeps [of x n l0] by simp
  have op: "openReader x l0
      = Inr ([], l0\<lparr>reader := Some [],
                    ivfTimebase := timebase_quot x (TimebaseNumerator hdr) (TimebaseDenominator hdr)\<rparr>)"
    using fresh assms(2) by (simp add: openReader_def)
  show ?thesis
    using op nextSample_empty [OF pulls_empty [OF fresh assms(2)] nw]
    by (simp add: NextSample_def)
qed

theorem zero_frame_clip_gives_EOF_witness:
  "fst (NextSample (example_extern []) (pulls (example_extern []) 3 example_looper))
     = (\<lparr>Data = [], Duration = 0\<rparr>, Some EOF)"
proof -
  have nw: "NewWith (example_extern []) (buffer example_looper) = Inr ([], example_header)"
    by (simp add: example_extern_def)
  from zero_frame_clip_gives_EOF [OF ex_new nw, of 3] show ?thesis
    by simp
qed

text \<open>
  C5 as stated fails: on the example looper over a clip with no frame the reader opens
  without an error, and the first pull returns \<^verbatim>\<open>io.EOF\<close>.
\<close>

theorem zero_frame_clip_opens:
  "\<not> isl (openReader (example_extern []) example_looper)
   \<and> snd (fst (NextSample (example_extern []) example_looper)) = Some EOF"
  by (simp add: openReader_def NextSample_def nextSample_True nextSample_False ParseNextFrame_Nil
      example_extern_def example_looper_def)

theorem nextSample_retries_at_most_once_witness:
  "nextSample_depth (example_extern []) True example_looper \<le> 2
   \<and> nextSample (example_extern []) True example_looper
       = nextSample (example_extern []) False example_looper
   \<and> fst (nextSample (example_extern []) False example_looper) = (\<lparr>Data = [], Duration = 0\<rparr>, Some EOF)"
proof -
  have op: "openReader (example_extern []) example_looper
      = Inr ([], example_looper\<lparr>reader := Some [], ivfTimebase := 0\<rparr>)"
    by (simp add: openReader_def example_extern_def example_looper_def)
  have pn: "fst (ParseNextFrame []) = Inl EOF"
    by (simp add: ParseNextFrame_Nil)
  have "example_looper\<lparr>reader := Some [], ivfTimebase := 0, reader := None\<rparr> = example_looper"
    by (simp add: example_looper_def)
  from nextSample_retries_at_most_once [of "example_extern []" True example_looper "[]"
      "example_looper\<lparr>reader := Some [], ivfTimebase := 0\<rparr>"] op pn this
  show ?thesis by simp
qed

text \<open>
  C6, as the code has it. After pull \<open>i\<close> on a clip of \<open>k \<ge> 1\<close> frames the last-seen
  timestamp is the timestamp of frame \<open>i mod k\<close>. So between two pulls of one pass over a clip
  whose timestamps are in non-decreasing order it does not decrease, and after the pull that
  rewinds it is the timestamp of the first frame. No call of \<^verbatim>\<open>nextSample\<close> changes the buffer,
  the frame duration, the video spec or the codec flag: it writes the reader, the timebase
  read when the reader is opened, and the last-seen timestamp only.
\<close>

theorem last_timestamp_follows_clip:
  assumes "NewVPVideoLooper input spc vp9 = Inr l0"
    and "NewWith x (buffer l0) = Inr (map Inr fs, hdr)"
    and "fs \<noteq> []"
  shows "lastTimestamp (pulls x (Suc i) l0) = Timestamp (snd (fs ! (i mod length fs)))
    \<and> (sorted (map (\<lambda>f. Timestamp (snd f)) fs) \<and> Suc i mod length fs \<noteq> 0 \<longrightarrow>
          lastTimestamp (pulls x (Suc i) l0) \<le> lastTimestamp (pulls x (Suc (Suc i)) l0))
    \<and> (Suc i mod length fs = 0 \<longrightarrow>
          lastTimestamp (pulls x (Suc (Suc i)) l0) = Timestamp (snd (fs ! 0)))
    \<and> buffer (snd (nextSample x b l)) = buffer l
    \<and> frameDuration (snd (nextSample x b l)) = frameDuration l
    \<and> spec (snd (nextSample x b l)) = spec l
    \<and> isVp9Encoding (snd (nextSample x b l)) = isVp9Encoding l"
proof -
  have fresh: "reader l0 = None"
    using New_fields(1) [OF assms(1)] .
  have ts: "lastTimestamp (pulls x (Suc j) l0) = Timestamp (snd (fs ! (j mod length fs)))" for j
    using pulls_clip [OF fresh assms(2,3), of j] by simp
  have len: "0 < length fs"
    using assms(3) by simp
  have mono: "lastTimestamp (pulls x (Suc i) l0) \<le> lastTimestamp (pulls x (Suc (Suc i)) l0)"
    if srt: "sorted (map (\<lambda>f. Timestamp (snd f)) fs)" and nz: "Suc i mod length fs \<noteq> 0"
  proof -
    have m: "Suc i mod length fs = Suc (i mod length fs)"
      using nz by (simp add: mod_Suc split: if_splits)
    have lt: "Suc (i mod length fs) < length fs"
      using m len mod_less_divisor [of "length fs" "Suc i"] by simp
    have "map (\<lambda>f. Timestamp (snd f)) fs ! (i mod length fs)
        \<le> map (\<lambda>f. Timestamp (snd f)) fs ! Suc (i mod length fs)"
      using srt lt by (intro sorted_nth_mono) simp_all
    then show ?thesis
      using lt by (simp add: ts m del: pulls.simps)
  qed
  show ?thesis
    using ts [of i] ts [of "Suc i"] mono nextSample_keeps [of x b l]
    by (simp del: pulls.simps)
qed

theorem last_timestamp_follows_clip_witness:
  "lastTimestamp (pulls (example_extern example_clip) 1 example_looper) = 0
   \<and> lastTimestamp (pulls (example_extern example_clip) 1 example_looper)
      \<le> lastTimestamp (pulls (example_extern example_clip) 2 example_looper)"
proof -
  have nw: "NewWith (example_extern example_clip) (buffer example_looper)
      = Inr (map Inr example_clip, example_header)"
    by (simp add: example_extern_def)
  have ne: "example_clip \<noteq> []"
    by (simp add: example_clip_def)
  have srt: "sorted (map (\<lambda>f. Timestamp (snd f)) example_clip)"
    by (simp add: example_clip_def)
  have nz: "Suc 0 mod length example_clip \<noteq> 0"
    by (simp add: example_clip_def)
  have t0: "Timestamp (snd (example_clip ! (0 mod length example_clip))) = 0"
    by (simp add: example_clip_def)
  have p: "pulls (example_extern example_clip) 1 example_looper
      = pulls (example_extern example_clip) (Suc 0) example_looper"
    "pulls (example_extern example_clip) 2 example_looper
      = pulls (example_extern example_clip) (Suc (Suc 0)) example_looper"
    by (simp_all add: numeral_2_eq_2)
  from last_timestamp_follows_clip [OF ex_new nw ne, of 0] srt nz t0
  show ?thesis
    unfolding p by (simp del: pulls.simps)
qed

text \<open>
  C6 as stated fails: on the example clip of two frames with timestamps 0 and 1 the second and
  the third pull both succeed, and the third leaves a smaller last-seen timestamp than the
  second.
\<close>

theorem last_timestamp_drops_at_rewind:
  "snd (fst (NextSample (example_extern example_clip) (pulls (example_extern example_clip) 1 example_looper))) = None
   \<and> snd (fst (NextSample (example_extern example_clip) (pulls (example_extern example_clip) 2 example_looper))) = None
   \<and> lastTimestamp (pulls (example_extern example_clip) 3 example_looper)
       < lastTimestamp (pulls (example_extern example_clip) 2 example_looper)"
proof -
  let ?x = "example_extern example_clip"
  have fresh: "reader example_looper = None"
    by (simp add: example_looper_def)
  have nw: "NewWith ?x (buffer example_looper) = Inr (map Inr example_clip, example_header)"
    by (simp add: example_extern_def)
  have ne: "example_clip \<noteq> []"
    by (simp add: example_clip_def)
  have len: "length example_clip = Suc (Suc 0)"
    by (simp add: example_clip_def)
  have t0: "Timestamp (snd (example_clip ! 0)) = 0"
    and t1: "Timestamp (snd (example_clip ! Suc 0)) = 1"
    by (simp_all add: example_clip_def)
  have a: "snd (fst (NextSample ?x (pulls ?x (Suc 0) example_looper))) = None"
    "lastTimestamp (pulls ?x (Suc (Suc 0)) example_looper) = 1"
    using pulls_clip [OF fresh nw ne, of "Suc 0"] by (simp_all add: len t1 del: pulls.simps)
  have b: "snd (fst (NextSample ?x (pulls ?x (Suc (Suc 0)) example_looper))) = None"
    "lastTimestamp (pulls ?x (Suc (Suc (Suc 0))) example_looper) = 0"
    using pulls_clip [OF fresh nw ne, of "Suc (Suc 0)"] by (simp_all add: len t0 del: pulls.simps)
  have n: "(1::nat) = Suc 0" "(2::nat) = Suc (Suc 0)" "(3::nat) = Suc (Suc (Suc 0))"
    by (simp_all add: numeral_2_eq_2 numeral_3_eq_3)
  show ?thesis
    unfolding n using a b by (simp del: pulls.simps)
qed

section \<open>Properties of the load-test command\<close>

lemma loadTest_suite:
  assumes "loadProjectDetails env cmd = Inr pc" and "cmd_Bool cmd ''run-all''"
  shows "loadTest env cmd =
    (preamble cmd @
       [NewLoadTest (if RunDuration (flagParams env cmd pc) = 0
                     then (flagParams env cmd pc)\<lparr>RunDuration := Second * 15\<rparr>
                     else flagParams env cmd pc),
        Call_RunSuite],
     RunSuite env (if RunDuration (flagParams env cmd pc) = 0
                   then (flagParams env cmd pc)\<lparr>RunDuration := Second * 15\<rparr>
                   else flagParams env cmd pc))"
  using assms by (simp add: loadTest_def Let_def)

lemma loadTest_run:
  assumes "loadProjectDetails env cmd = Inr pc" and "\<not> cmd_Bool cmd ''run-all''"
  shows "loadTest env cmd =
    (case fairprocCheck ((flagParams env cmd pc)
            \<lparr>VideoPublishers := cmd_Int cmd ''video-publishers'',
             AudioPublishers := cmd_Int cmd ''audio-publishers'',
             Subscribers := cmd_Int cmd ''subscribers''\<rparr>) of
       Inl err \<Rightarrow> (preamble cmd, Some err)
     | Inr params \<Rightarrow> (preamble cmd @ [NewLoadTest params, Call_Run], Run env params))"
  using assms by (simp add: loadTest_def Let_def)

lemma flagParams_fairproc:
  "IsFairproc (flagParams env cmd pc) = cmd_Bool cmd ''fairproc-rooms''"
  "FairprocAudioBitrate (flagParams env cmd pc) = cmd_Int cmd ''fairproc-config-audio-bitrate''"
  "FairprocConfigScreenHeight (flagParams env cmd pc) = cmd_Int cmd ''fairproc-config-screen-height''"
  "FairprocConfigScreenWidth (flagParams env cmd pc) = cmd_Int cmd ''fairproc-config-screen-width''"
  "FairprocConfigScreenBitrate (flagParams env cmd pc) = cmd_Int cmd ''fairproc-config-screen-bitrate''"
  "FairprocConfigWebBitrate (flagParams env cmd pc) = cmd_Int cmd ''fairproc-config-web-bitrate''"
  "FairprocConfigWebHieght (flagParams env cmd pc) = cmd_Int cmd ''fairproc-config-web-height''"
  "FairprocConfigWebWidth (flagParams env cmd pc) = cmd_Int cmd ''fairproc-config-web-width''"
  "RunDuration (flagParams env cmd pc) = cmd_Duration cmd ''duration''"
  "VideoPublishers (flagParams env cmd pc) = 0"
  "AudioPublishers (flagParams env cmd pc) = 0"
  "Subscribers (flagParams env cmd pc) = 0"
  by (simp_all add: flagParams_def)

lemma loadTest_fairproc_fail:
  assumes "loadProjectDetails env cmd = Inr pc" and "\<not> cmd_Bool cmd ''run-all''"
    and "cmd_Bool cmd ''fairproc-rooms''" and "checkedUnset cmd"
  shows "loadTest env cmd = (preamble cmd, Some configError)"
  using assms(3,4) unfolding loadTest_run [OF assms(1,2)]
  by (simp add: fairprocCheck_def flagParams_fairproc checkedUnset_def configError_def)

lemma loadTest_fairproc_pass:
  assumes "loadProjectDetails env cmd = Inr pc" and "\<not> cmd_Bool cmd ''run-all''"
    and "cmd_Bool cmd ''fairproc-rooms''" and "\<not> checkedUnset cmd"
  shows "loadTest env cmd =
    (preamble cmd @
       [NewLoadTest ((flagParams env cmd pc)
            \<lparr>Subscribers := cmd_Int cmd ''subscribers'', AudioPublishers := 2, VideoPublishers := 3\<rparr>),
        Call_Run],
     Run env ((flagParams env cmd pc)
            \<lparr>Subscribers := cmd_Int cmd ''subscribers'', AudioPublishers := 2, VideoPublishers := 3\<rparr>))"
  using assms(3,4) unfolding loadTest_run [OF assms(1,2)]
  by (simp add: fairprocCheck_def flagParams_fairproc checkedUnset_def)

text \<open>
  C3, as the code has it. In fairproc mode outside suite mode, once the project details are
  loaded and with the screen bitrate supplied, the run stops with the configuration error,
  after the preamble calls only, if and only if one of the audio bitrate, the screen height,
  the screen width, the web bitrate, the web height and the web width is \<open>-1\<close>; when none of
  them is, the check passes and the load test is constructed and run.
\<close>

theorem fairproc_check_fails_iff:
  assumes "loadProjectDetails env cmd = Inr pc"
    and "\<not> cmd_Bool cmd ''run-all''"
    and "cmd_Bool cmd ''fairproc-rooms''"
    and "cmd_Int cmd ''fairproc-config-screen-bitrate'' \<noteq> - 1"
  shows "(loadTest env cmd = (preamble cmd, Some configError) \<longleftrightarrow> checkedUnset cmd)
    \<and> (\<not> checkedUnset cmd \<longrightarrow>
          (\<exists>params. loadTest env cmd = (preamble cmd @ [NewLoadTest params, Call_Run], Run env params)))"
proof (cases "checkedUnset cmd")
  case True
  then show ?thesis
    using loadTest_fairproc_fail [OF assms(1-3)] by simp
next
  case False
  then show ?thesis
    using loadTest_fairproc_pass [OF assms(1-3)] by simp
qed

lemma example_load: "loadProjectDetails example_env cmd = Inr example_project"
  by (simp add: example_env_def)

lemma fairproc_four_flags:
  "\<not> cmd_Bool fairproc_four ''run-all''"
  "\<not> cmd_Bool fairproc_four ''verbose''"
  "cmd_Bool fairproc_four ''fairproc-rooms''"
  "cmd_Int fairproc_four ''fairproc-config-web-width'' = 300"
  "cmd_Int fairproc_four ''fairproc-config-web-height'' = 200"
  "cmd_Int fairproc_four ''fairproc-config-web-bitrate'' = 29"
  "cmd_Int fairproc_four ''fairproc-config-screen-bitrate'' = 50"
  "cmd_Int fairproc_four ''fairproc-config-screen-width'' = - 1"
  "cmd_Int fairproc_four ''fairproc-config-screen-height'' = - 1"
  "cmd_Int fairproc_four ''fairproc-config-audio-bitrate'' = 16"
  "cmd_Int fairproc_four ''video-publishers'' = 7"
  "cmd_Int fairproc_four ''audio-publishers'' = 5"
  "cmd_Int fairproc_four ''subscribers'' = 4"
  by (simp_all add: fairproc_four_def with_counts_def with_Int_def with_Bool_def LoadTestCommands_def)

lemma fairproc_all_flags:
  "\<not> cmd_Bool fairproc_all ''run-all''"
  "\<not> cmd_Bool fairproc_all ''verbose''"
  "cmd_Bool fairproc_all ''fairproc-rooms''"
  "cmd_Int fairproc_all ''fairproc-config-web-width'' = 300"
  "cmd_Int fairproc_all ''fairproc-config-web-height'' = 200"
  "cmd_Int fairproc_all ''fairproc-config-web-bitrate'' = 29"
  "cmd_Int fairproc_all ''fairproc-config-screen-bitrate'' = 50"
  "cmd_Int fairproc_all ''fairproc-config-screen-width'' = 1280"
  "cmd_Int fairproc_all ''fairproc-config-screen-height'' = 720"
  "cmd_Int fairproc_all ''fairproc-config-audio-bitrate'' = 16"
  "cmd_Int fairproc_all ''video-publishers'' = 7"
  "cmd_Int fairproc_all ''audio-publishers'' = 5"
  "cmd_Int fairproc_all ''subscribers'' = 4"
  by (simp_all add: fairproc_all_def fairproc_four_def with_counts_def with_Int_def with_Bool_def
      LoadTestCommands_def)

theorem fairproc_check_fails_iff_witness:
  "loadTest example_env fairproc_all \<noteq> (preamble fairproc_all, Some configError)
   \<and> (\<exists>params. loadTest example_env fairproc_all
         = (preamble fairproc_all @ [NewLoadTest params, Call_Run], Run example_env params))"
proof -
  have sb: "cmd_Int fairproc_all ''fairproc-config-screen-bitrate'' \<noteq> - 1"
    by (simp add: fairproc_all_flags)
  have ok: "\<not> checkedUnset fairproc_all"
    by (simp add: checkedUnset_def fairproc_all_flags)
  from fairproc_check_fails_iff [OF example_load fairproc_all_flags(1) fairproc_all_flags(3) sb] ok
  show ?thesis by simp
qed

text \<open>
  C3 as stated fails: the command line that sets exactly the web width, the web height, the
  web bitrate and the screen bitrate in fairproc mode, outside suite mode, is rejected with
  the configuration error, because the screen width and height are at their default \<open>-1\<close>.
\<close>

theorem fairproc_four_supplied_fails:
  "\<not> cmd_Bool fairproc_four ''run-all''
   \<and> cmd_Bool fairproc_four ''fairproc-rooms''
   \<and> cmd_Int fairproc_four ''fairproc-config-web-width'' \<noteq> - 1
   \<and> cmd_Int fairproc_four ''fairproc-config-web-height'' \<noteq> - 1
   \<and> cmd_Int fairproc_four ''fairproc-config-web-bitrate'' \<noteq> - 1
   \<and> cmd_Int fairproc_four ''fairproc-config-screen-bitrate'' \<noteq> - 1
   \<and> loadTest example_env fairproc_four
       = ([SetLogger_Discard, RaiseULimit], Some (Errorf ''fairproc missing required files''))"
proof -
  have "checkedUnset fairproc_four"
    by (simp add: checkedUnset_def fairproc_four_flags)
  from loadTest_fairproc_fail [OF example_load fairproc_four_flags(1) fairproc_four_flags(3) this]
  show ?thesis
    by (simp add: fairproc_four_flags preamble_def configError_def)
qed

text \<open>
  C4. When fairproc mode is requested and its check is applied (outside suite mode, with the
  project details loaded) and passes, the parameters handed to \<^verbatim>\<open>NewLoadTest\<close> have 2 audio
  publishers and 3 video publishers whatever the flags \<^verbatim>\<open>audio-publishers\<close> and
  \<^verbatim>\<open>video-publishers\<close> say; every other parameter is as the flags give it.
\<close>

theorem fairproc_sets_publishers:
  assumes "loadProjectDetails env cmd = Inr pc"
    and "\<not> cmd_Bool cmd ''run-all''"
    and "cmd_Bool cmd ''fairproc-rooms''"
    and "\<not> checkedUnset cmd"
  shows "\<exists>params. loadTest env cmd = (preamble cmd @ [NewLoadTest params, Call_Run], Run env params)
    \<and> AudioPublishers params = 2 \<and> VideoPublishers params = 3
    \<and> params = (flagParams env cmd pc)
        \<lparr>Subscribers := cmd_Int cmd ''subscribers'', AudioPublishers := 2, VideoPublishers := 3\<rparr>"
  using loadTest_fairproc_pass [OF assms] by simp

theorem fairproc_sets_publishers_witness:
  "cmd_Int fairproc_all ''video-publishers'' = 7 \<and> cmd_Int fairproc_all ''audio-publishers'' = 5
   \<and> (\<exists>params. fst (loadTest example_env fairproc_all)
          = [SetLogger_Discard, RaiseULimit, NewLoadTest params, Call_Run]
        \<and> AudioPublishers params = 2 \<and> VideoPublishers params = 3)"
proof -
  have ok: "\<not> checkedUnset fairproc_all"
    by (simp add: checkedUnset_def fairproc_all_flags)
  from fairproc_sets_publishers [OF example_load fairproc_all_flags(1) fairproc_all_flags(3) ok]
  show ?thesis
    by (auto simp: fairproc_all_flags preamble_def)
qed

text \<open>
  C8. When the fairproc check fails, \<^verbatim>\<open>loadTest\<close> returns the configuration error and has
  made the preamble calls only (silencing the logger, raising the file limit): no load test
  is constructed, and neither \<^verbatim>\<open>Run\<close> nor \<^verbatim>\<open>RunSuite\<close> is called.
\<close>

theorem rejected_config_constructs_nothing:
  assumes "loadProjectDetails env cmd = Inr pc"
    and "\<not> cmd_Bool cmd ''run-all''"
    and "cmd_Bool cmd ''fairproc-rooms''"
    and "checkedUnset cmd"
  shows "loadTest env cmd = (preamble cmd, Some configError)
    \<and> (\<forall>c \<in> set (fst (loadTest env cmd)). c = SetLogger_Discard \<or> c = RaiseULimit)"
  using loadTest_fairproc_fail [OF assms] by (simp add: preamble_def)

theorem rejected_config_constructs_nothing_witness:
  "loadTest example_env fairproc_unset
     = ([SetLogger_Discard, RaiseULimit], Some (Errorf ''fairproc missing required files''))"
proof -
  have fl: "\<not> cmd_Bool fairproc_unset ''run-all''" "cmd_Bool fairproc_unset ''fairproc-rooms''"
    "\<not> cmd_Bool fairproc_unset ''verbose''"
    by (simp_all add: fairproc_unset_def with_counts_def with_Int_def with_Bool_def LoadTestCommands_def)
  have un: "checkedUnset fairproc_unset"
    by (simp add: checkedUnset_def fairproc_unset_def with_counts_def with_Int_def with_Bool_def
        LoadTestCommands_def)
  from rejected_config_constructs_nothing [OF example_load fl(1,2) un]
  show ?thesis
    by (simp add: preamble_def configError_def fl)
qed

lemma flagParams_with_counts: "flagParams env (with_counts v a s cmd) pc = flagParams env cmd pc"
  by (simp add: flagParams_def with_counts_def with_Int_def)

lemma with_counts_other:
  "cmd_Bool (with_counts v a s cmd) = cmd_Bool cmd"
  "preamble (with_counts v a s cmd) = preamble cmd"
  by (simp_all add: preamble_def with_counts_def with_Int_def)

text \<open>
  C9. In suite mode the result of \<^verbatim>\<open>loadTest\<close> does not depend on the flags
  \<^verbatim>\<open>video-publishers\<close>, \<^verbatim>\<open>audio-publishers\<close> and \<^verbatim>\<open>subscribers\<close>: the parameters of the
  suite have all three counts zero, the error returned is the one of \<^verbatim>\<open>RunSuite\<close>, and the
  fairproc check is not applied, whatever the fairproc flags are.
\<close>

theorem suite_ignores_counts_and_check:
  assumes "cmd_Bool cmd ''run-all''"
    and "loadProjectDetails env cmd = Inr pc"
    and "loadProjectDetails env (with_counts v a s cmd) = Inr pc"
  shows "loadTest env (with_counts v a s cmd) = loadTest env cmd
    \<and> (\<exists>params. loadTest env cmd = (preamble cmd @ [NewLoadTest params, Call_RunSuite], RunSuite env params)
          \<and> VideoPublishers params = 0 \<and> AudioPublishers params = 0 \<and> Subscribers params = 0
          \<and> IsFairproc params = cmd_Bool cmd ''fairproc-rooms'')"
proof -
  have r: "cmd_Bool (with_counts v a s cmd) ''run-all''"
    using assms(1) by (simp add: with_counts_other)
  have "loadTest env (with_counts v a s cmd) = loadTest env cmd"
    unfolding loadTest_suite [OF assms(3) r] loadTest_suite [OF assms(2,1)]
    by (simp add: flagParams_with_counts with_counts_other)
  then show ?thesis
    unfolding loadTest_suite [OF assms(2,1)] by (simp add: flagParams_fairproc)
qed

theorem suite_ignores_counts_and_check_witness:
  "cmd_Bool (with_Bool ''run-all'' True fairproc_unset) ''fairproc-rooms''
   \<and> checkedUnset (with_Bool ''run-all'' True fairproc_unset)
   \<and> loadTest example_env (with_counts 9 9 9 (with_Bool ''run-all'' True fairproc_unset))
       = loadTest example_env (with_Bool ''run-all'' True fairproc_unset)
   \<and> snd (loadTest example_env (with_Bool ''run-all'' True fairproc_unset)) = None"
proof -
  let ?c = "with_Bool ''run-all'' True fairproc_unset"
  have fl: "cmd_Bool ?c ''run-all''" "cmd_Bool ?c ''fairproc-rooms''"
    by (simp_all add: fairproc_unset_def with_counts_def with_Int_def with_Bool_def LoadTestCommands_def)
  have un: "checkedUnset ?c"
    by (simp add: checkedUnset_def fairproc_unset_def with_counts_def with_Int_def with_Bool_def
        LoadTestCommands_def)
  from suite_ignores_counts_and_check [OF fl(1) example_load example_load, of 9 9 9]
  show ?thesis
    using fl un by (auto simp: example_env_def)
qed

text \<open>
  C10. In suite mode the suite runs with a duration of 15 seconds when the flag
  \<^verbatim>\<open>duration\<close> is zero, and with the duration of the flag otherwise.
\<close>

theorem suite_default_duration:
  assumes "cmd_Bool cmd ''run-all''"
    and "loadProjectDetails env cmd = Inr pc"
  shows "\<exists>params. loadTest env cmd = (preamble cmd @ [NewLoadTest params, Call_RunSuite], RunSuite env params)
    \<and> RunDuration params
        = (if cmd_Duration cmd ''duration'' = 0 then 15000000000 else cmd_Duration cmd ''duration'')"
  unfolding loadTest_suite [OF assms(2,1)] by (simp add: flagParams_fairproc Second_def)

theorem suite_default_duration_witness:
  "cmd_Duration (with_Bool ''run-all'' True LoadTestCommands) ''duration'' = 0
   \<and> (\<exists>params. fst (loadTest example_env (with_Bool ''run-all'' True LoadTestCommands))
          = [SetLogger_Discard, RaiseULimit, NewLoadTest params, Call_RunSuite]
        \<and> RunDuration params = 15000000000)"
proof -
  let ?c = "with_Bool ''run-all'' True LoadTestCommands"
  have fl: "cmd_Bool ?c ''run-all''" "\<not> cmd_Bool ?c ''verbose''" "cmd_Duration ?c ''duration'' = 0"
    by (simp_all add: with_Bool_def LoadTestCommands_def)
  from suite_default_duration [OF fl(1) example_load]
  show ?thesis
    using fl by (auto simp: preamble_def)
qed

end
